theory Spec2Isabelle
  imports Main
begin

section \<open>The environment of the recorder\<close>

text \<open>
  \<^verbatim>\<open>perfrecord.cpp\<close> supervises one \<^verbatim>\<open>perf record\<close> subprocess. Everything it
  asks of Qt, KDE and the operating system is a parameter of the model:
  the metadata of the file system (what \<^verbatim>\<open>QFileInfo\<close> answers), the search path
  (\<^verbatim>\<open>QStandardPaths::findExecutable\<close>), the user database (\<^verbatim>\<open>KUser\<close>,
  \<^verbatim>\<open>KUserGroup\<close>), the window system, the two path computations
  \<^verbatim>\<open>QFileInfo::dir().path()\<close> and \<^verbatim>\<open>QFileInfo::absoluteFilePath()\<close>, and what a
  helper process run to completion does to the file system.
\<close>

record file_attrs =
  attrDir :: bool
  attrFile :: bool
  attrReadable :: bool
  attrWritable :: bool
  attrExecutable :: bool
  attrSize :: nat

type_synonym filesystem = "string \<Rightarrow> file_attrs option"

text \<open>A \<^verbatim>\<open>QFileInfo\<close> is the snapshot of one path: \<open>None\<close> when nothing is there.\<close>

type_synonym QFileInfo = "file_attrs option"

definition QFileInfo :: "filesystem \<Rightarrow> string \<Rightarrow> QFileInfo" where
  "QFileInfo fsys path = (if path = [] then None else fsys path)"

definition fileExists :: "QFileInfo \<Rightarrow> bool" where
  "fileExists i = (case i of None \<Rightarrow> False | Some a \<Rightarrow> True)"

definition isDir :: "QFileInfo \<Rightarrow> bool" where
  "isDir i = (case i of None \<Rightarrow> False | Some a \<Rightarrow> attrDir a)"

definition isFile :: "QFileInfo \<Rightarrow> bool" where
  "isFile i = (case i of None \<Rightarrow> False | Some a \<Rightarrow> attrFile a)"

definition isReadable :: "QFileInfo \<Rightarrow> bool" where
  "isReadable i = (case i of None \<Rightarrow> False | Some a \<Rightarrow> attrReadable a)"

definition isWritable :: "QFileInfo \<Rightarrow> bool" where
  "isWritable i = (case i of None \<Rightarrow> False | Some a \<Rightarrow> attrWritable a)"

definition isExecutable :: "QFileInfo \<Rightarrow> bool" where
  "isExecutable i = (case i of None \<Rightarrow> False | Some a \<Rightarrow> attrExecutable a)"

definition fileSize :: "QFileInfo \<Rightarrow> nat" where
  "fileSize i = (case i of None \<Rightarrow> 0 | Some a \<Rightarrow> attrSize a)"

record os =
  findExecutable :: "string \<Rightarrow> string"
  loginName :: string
  groupName :: string
  activeWindow :: nat
  dirPath :: "string \<Rightarrow> string"
  absoluteFilePath :: "string \<Rightarrow> string"
  runProcess :: "string \<Rightarrow> string list \<Rightarrow> filesystem \<Rightarrow> filesystem"

section \<open>Strings\<close>

text \<open>\<^verbatim>\<open>QString::number\<close> and \<^verbatim>\<open>QString::arg(int)\<close>: decimal digits, a minus sign first.\<close>

fun number_nat :: "nat \<Rightarrow> string" where
  "number_nat n =
     (if n < 10 then [''0123456789'' ! n]
      else number_nat (n div 10) @ [''0123456789'' ! (n mod 10)])"

declare number_nat.simps [simp del]

definition number :: "int \<Rightarrow> string" where
  "number i = (if i < 0 then CHR ''-'' # number_nat (nat (- i)) else number_nat (nat i))"

text \<open>\<^verbatim>\<open>QStringList::join\<close>.\<close>

fun join :: "string \<Rightarrow> string list \<Rightarrow> string" where
  "join sep [] = []"
| "join sep [x] = x"
| "join sep (x # y # ys) = x @ sep @ join sep (y # ys)"

text \<open>
  The messages are the untranslated templates with \<^verbatim>\<open>%1\<close> filled in; in all of
  them that take a path, the path stands between single quotes.
\<close>

definition quoted :: "string \<Rightarrow> string" where
  "quoted s = [CHR 0x27] @ s @ [CHR 0x27]"

text \<open>\<^verbatim>\<open>QString::endsWith\<close>.\<close>

definition endsWith :: "string \<Rightarrow> string \<Rightarrow> bool" where
  "endsWith s suf =
     (length suf \<le> length s \<and> drop (length s - length suf) s = suf)"

section \<open>Signals, process operations and the state\<close>

text \<open>The four signals of \<^verbatim>\<open>PerfRecord\<close>.\<close>

datatype signal =
    recordingStarted string "string list"
  | recordingFinished string
  | recordingFailed string
  | recordingOutput string

text \<open>
  What a call does to the outside, in the order it does it: a signal emitted, or an
  operation on a \<^verbatim>\<open>QProcess\<close> object, which is named by the number it got when
  it was created. \<open>Start\<close> is the asynchronous \<^verbatim>\<open>QProcess::start\<close>, \<open>Execute\<close> the
  blocking \<^verbatim>\<open>QProcess::execute\<close>; these two are the only ones that spawn.
\<close>

datatype action =
    Emit signal
  | Kill nat
  | DeleteLater nat
  | Start nat string "string list"
  | Terminate nat
  | Execute string "string list"
  | WriteInput nat string

datatype channel_mode = SeparateChannels | MergedChannels

text \<open>
  The \<^verbatim>\<open>QProcess\<close> object behind \<^verbatim>\<open>m_perfRecordProcess\<close>. The pointer never
  leaves the class, so the object is held by value; \<open>connected\<close> says that the three
  lambdas of \<^verbatim>\<open>startRecording\<close> are connected to it.
\<close>

record QProcess =
  handle :: nat
  processChannelMode :: channel_mode
  workingDirectory :: string
  program :: string
  arguments :: "string list"
  errorString :: string
  connected :: bool

record PerfRecord =
  m_perfRecordProcess :: "QProcess option"
  m_outputPath :: string
  m_userTerminated :: bool

text \<open>
  What lies outside the object: the file system as it is now, the actions done so far,
  oldest first, and the number the next \<^verbatim>\<open>QProcess\<close> object will get.
\<close>

record world =
  fs :: filesystem
  trace :: "action list"
  fresh :: nat

type_synonym state = "PerfRecord \<times> world"

definition act :: "action \<Rightarrow> world \<Rightarrow> world" where
  "act a w = w\<lparr>trace := trace w @ [a]\<rparr>"

definition emit :: "signal \<Rightarrow> world \<Rightarrow> world" where
  "emit sig w = act (Emit sig) w"

text \<open>\<^verbatim>\<open>new QProcess(this)\<close>: a fresh object that has not been started.\<close>

definition newQProcess :: "nat \<Rightarrow> QProcess" where
  "newQProcess h =
     \<lparr>handle = h, processChannelMode = SeparateChannels, workingDirectory = [],
      program = [], arguments = [], errorString = ''Unknown error'', connected = False\<rparr>"

text \<open>The constructor: no process, no output path, flag cleared.\<close>

definition PerfRecord_ctor :: PerfRecord where
  "PerfRecord_ctor =
     \<lparr>m_perfRecordProcess = None, m_outputPath = [], m_userTerminated = False\<rparr>"

section \<open>Helper resolution\<close>

text \<open>The loop of \<^verbatim>\<open>sudoUtil\<close> over the known helper names.\<close>

fun firstFound :: "os \<Rightarrow> string list \<Rightarrow> string" where
  "firstFound sys [] = []"
| "firstFound sys (cmd # cmds) =
     (let util = findExecutable sys cmd in
      if util \<noteq> [] then util else firstFound sys cmds)"

definition sudoUtil :: "os \<Rightarrow> string" where
  "sudoUtil sys = firstFound sys [''kdesu'', ''gksu'']"

definition currentUsername :: "os \<Rightarrow> string" where
  "currentUsername sys = loginName sys"

definition sudoOptions :: "os \<Rightarrow> string \<Rightarrow> string list" where
  "sudoOptions sys sudoBinary =
     [''-u'', ''root''] @
     (if endsWith sudoBinary ''/kdesu''
      then [''-t'', ''--attach'', number_nat (activeWindow sys)] else [])"

section \<open>Making the data file readable\<close>

definition ensureFileReadable :: "os \<Rightarrow> string \<Rightarrow> world \<Rightarrow> bool \<times> world" where
  "ensureFileReadable sys filePath w =
     (let username = currentUsername sys in
      if \<not> isReadable (QFileInfo (fs w) filePath) then
        (let sudoExe = sudoUtil sys in
         if sudoExe = [] \<or> username = [] then (False, w)
         else
           (let options = sudoOptions sys sudoExe @
                  [''--'', ''chown'', username @ '':'' @ groupName sys, filePath];
                w1 = act (Execute sudoExe options) w;
                w2 = w1\<lparr>fs := runProcess sys sudoExe options (fs w1)\<rparr>
            in (isReadable (QFileInfo (fs w2) filePath), w2)))
      else (isReadable (QFileInfo (fs w) filePath), w))"

section \<open>The three handlers connected by startRecording\<close>

text \<open>
  The two constants of \<^verbatim>\<open><csignal>\<close> and \<^verbatim>\<open><cstdlib>\<close> that the classification
  of the exit compares with, with their values on Linux.
\<close>

definition SIGTERM :: int where
  "SIGTERM = 15"

definition EXIT_SUCCESS :: int where
  "EXIT_SUCCESS = 0"

text \<open>The lambda connected to \<^verbatim>\<open>QProcess::finished\<close>.\<close>

definition onFinished :: "os \<Rightarrow> int \<Rightarrow> state \<Rightarrow> state" where
  "onFinished sys exitCode st =
     (let p = fst st; w = snd st;
          outputFileInfo = QFileInfo (fs w) (m_outputPath p);
          w' =
            (if (exitCode = EXIT_SUCCESS \<or> (exitCode = SIGTERM \<and> m_userTerminated p)
                 \<or> fileSize outputFileInfo > 0) \<and> fileExists outputFileInfo
             then
               (let r = ensureFileReadable sys (m_outputPath p) w in
                if \<not> fst r
                then emit (recordingFailed ''Unable to make data file readable.'') (snd r)
                else emit (recordingFinished (m_outputPath p)) (snd r))
             else
               emit (recordingFailed
                 (''Failed to record perf data, error code '' @ number exitCode @ ''.'')) w)
      in (p\<lparr>m_userTerminated := False\<rparr>, w'))"

text \<open>
  The lambda connected to \<^verbatim>\<open>QProcess::errorOccurred\<close>. It reads the error string
  through \<^verbatim>\<open>m_perfRecordProcess\<close>; without a process object that is a null
  dereference, the result \<open>None\<close>.
\<close>

definition onErrorOccurred :: "state \<Rightarrow> state option" where
  "onErrorOccurred st =
     (let p = fst st; w = snd st in
      if \<not> m_userTerminated p then
        (case m_perfRecordProcess p of
           None \<Rightarrow> None
         | Some q \<Rightarrow> Some (p, emit (recordingFailed (errorString q)) w))
      else Some (p, w))"

text \<open>
  The lambda connected to \<^verbatim>\<open>QProcess::readyRead\<close>; \<open>bytes\<close> is what
  \<^verbatim>\<open>readAll\<close> returns.
\<close>

definition onReadyRead :: "string \<Rightarrow> state \<Rightarrow> state option" where
  "onReadyRead bytes st =
     (let p = fst st; w = snd st in
      case m_perfRecordProcess p of
        None \<Rightarrow> None
      | Some q \<Rightarrow> Some (p, emit (recordingOutput bytes) w))"

section \<open>Starting and stopping\<close>

definition startRecording ::
  "os \<Rightarrow> string list \<Rightarrow> string \<Rightarrow> bool \<Rightarrow> string list \<Rightarrow> string \<Rightarrow> state \<Rightarrow> state" where
  "startRecording sys perfOptions outputPath recordAsSudo recordOptions workingDir st =
     (let p = fst st; w = snd st;
          w1 = (case m_perfRecordProcess p of
                  None \<Rightarrow> w
                | Some old \<Rightarrow> act (DeleteLater (handle old)) (act (Kill (handle old)) w));
          q1 = (newQProcess (fresh w1))\<lparr>processChannelMode := MergedChannels\<rparr>;
          w2 = w1\<lparr>fresh := Suc (fresh w1)\<rparr>;
          p1 = p\<lparr>m_perfRecordProcess := Some q1\<rparr>;
          folderPath = dirPath sys outputPath;
          folderInfo = QFileInfo (fs w2) folderPath
      in
      if \<not> fileExists folderInfo then
        (p1, emit (recordingFailed (''Folder '' @ quoted folderPath @ '' does not exist.'')) w2)
      else if \<not> isDir folderInfo then
        (p1, emit (recordingFailed (quoted folderPath @ '' is not a folder.'')) w2)
      else if \<not> isWritable folderInfo then
        (p1, emit (recordingFailed (''Folder '' @ quoted folderPath @ '' is not writable.'')) w2)
      else
        (let q2 = q1\<lparr>connected := True\<rparr>;
             perfBinary = ''perf'';
             q3 = (if workingDir \<noteq> [] then q2\<lparr>workingDirectory := workingDir\<rparr> else q2)
         in
         if recordAsSudo then
           (let sudoBinary = sudoUtil sys;
                options = sudoOptions sys sudoBinary
                  @ [''--'', perfBinary, ''record'', ''-o'', outputPath]
                  @ perfOptions
                  @ [''--'', ''runuser'', ''-u'', currentUsername sys, ''--'']
                  @ recordOptions;
                w3 = emit (recordingStarted sudoBinary options) w2;
                w4 = act (Start (handle q3) sudoBinary options) w3
            in (p\<lparr>m_perfRecordProcess := Some (q3\<lparr>program := sudoBinary, arguments := options\<rparr>),
                  m_outputPath := outputPath\<rparr>, w4))
         else
           (let perfCommand = [''record'', ''-o'', outputPath] @ perfOptions @ recordOptions;
                w3 = emit (recordingStarted perfBinary perfCommand) w2;
                w4 = act (Start (handle q3) perfBinary perfCommand) w3
            in (p\<lparr>m_perfRecordProcess := Some (q3\<lparr>program := perfBinary, arguments := perfCommand\<rparr>),
                  m_outputPath := outputPath\<rparr>, w4))))"

text \<open>The overload of \<^verbatim>\<open>record\<close> that attaches to running processes.\<close>

definition record_pids ::
  "os \<Rightarrow> string list \<Rightarrow> string \<Rightarrow> bool \<Rightarrow> string list \<Rightarrow> state \<Rightarrow> state" where
  "record_pids sys perfOptions outputPath recordAsSudo pids st =
     (if pids = [] then (fst st, emit (recordingFailed ''Process does not exist.'') (snd st))
      else startRecording sys perfOptions outputPath recordAsSudo
             [''--pid'', join '','' pids] [] st)"

text \<open>
  The overload of \<^verbatim>\<open>record\<close> that launches an executable. \<open>exeFileInfo\<close> is the
  \<^verbatim>\<open>QFileInfo\<close> it ends up checking, with the path that object holds: the literal
  path, or what the search path gives when nothing is at the literal path.
\<close>

definition exeFile :: "os \<Rightarrow> filesystem \<Rightarrow> string \<Rightarrow> string" where
  "exeFile sys fsys exePath =
     (if \<not> fileExists (QFileInfo fsys exePath) then findExecutable sys exePath else exePath)"

definition record_exe ::
  "os \<Rightarrow> string list \<Rightarrow> string \<Rightarrow> bool \<Rightarrow> string \<Rightarrow> string list \<Rightarrow> string \<Rightarrow> state \<Rightarrow> state" where
  "record_exe sys perfOptions outputPath recordAsSudo exePath exeOptions workingDir st =
     (let exeFileInfo = QFileInfo (fs (snd st)) (exeFile sys (fs (snd st)) exePath) in
      if \<not> fileExists exeFileInfo then
        (fst st, emit (recordingFailed (''File '' @ quoted exePath @ '' does not exist.'')) (snd st))
      else if \<not> isFile exeFileInfo then
        (fst st, emit (recordingFailed (quoted exePath @ '' is not a file.'')) (snd st))
      else if \<not> isExecutable exeFileInfo then
        (fst st, emit (recordingFailed (''File '' @ quoted exePath @ '' is not executable.'')) (snd st))
      else
        startRecording sys perfOptions outputPath recordAsSudo
          (absoluteFilePath sys (exeFile sys (fs (snd st)) exePath) # exeOptions) workingDir st)"

definition perfCommand :: "PerfRecord \<Rightarrow> string" where
  "perfCommand p =
     (case m_perfRecordProcess p of
        Some q \<Rightarrow> ''perf '' @ join '' '' (arguments q)
      | None \<Rightarrow> [])"

definition stopRecording :: "state \<Rightarrow> state" where
  "stopRecording st =
     (case m_perfRecordProcess (fst st) of
        Some q \<Rightarrow> ((fst st)\<lparr>m_userTerminated := True\<rparr>, act (Terminate (handle q)) (snd st))
      | None \<Rightarrow> st)"

text \<open>\<^verbatim>\<open>sendInput\<close> asserts that there is a process before it writes to it.\<close>

definition sendInput :: "string \<Rightarrow> state \<Rightarrow> state option" where
  "sendInput input st =
     (case m_perfRecordProcess (fst st) of
        None \<Rightarrow> None
      | Some q \<Rightarrow> Some (fst st, act (WriteInput (handle q) input) (snd st)))"

section \<open>Start requests\<close>

text \<open>
  The two shapes of a start request, the two overloads of \<^verbatim>\<open>record\<close>: attach to a
  set of process ids, or launch an executable with its arguments in a working
  directory.
\<close>

datatype target = ProcessIds "string list" | Executable string "string list" string

definition record_request ::
  "os \<Rightarrow> string list \<Rightarrow> string \<Rightarrow> bool \<Rightarrow> target \<Rightarrow> state \<Rightarrow> state" where
  "record_request sys perfOptions outputPath recordAsSudo tgt st =
     (case tgt of
        ProcessIds pids \<Rightarrow> record_pids sys perfOptions outputPath recordAsSudo pids st
      | Executable exePath exeOptions workingDir \<Rightarrow>
          record_exe sys perfOptions outputPath recordAsSudo exePath exeOptions workingDir st)"

text \<open>
  The specification's reading of an invalid request, to compare the code with. A target
  is invalid when the set of process ids is empty, or when the executable, looked up at
  the literal path first and on the search path after that, does not exist, is not a
  regular file, or is not executable. An output path is invalid when its directory does
  not exist, is not a directory, or is not writable. Each comes with its message; the
  target is looked at first.
\<close>

definition spec_target_reason :: "os \<Rightarrow> filesystem \<Rightarrow> target \<Rightarrow> string option" where
  "spec_target_reason sys fsys tgt =
     (case tgt of
        ProcessIds pids \<Rightarrow> (if pids = [] then Some ''Process does not exist.'' else None)
      | Executable exePath exeOptions workingDir \<Rightarrow>
          (let literal = QFileInfo fsys exePath;
               info = (if fileExists literal then literal
                       else QFileInfo fsys (findExecutable sys exePath))
           in if \<not> fileExists info then Some (''File '' @ quoted exePath @ '' does not exist.'')
              else if \<not> isFile info then Some (quoted exePath @ '' is not a file.'')
              else if \<not> isExecutable info
                then Some (''File '' @ quoted exePath @ '' is not executable.'')
              else None))"

definition spec_output_reason :: "os \<Rightarrow> filesystem \<Rightarrow> string \<Rightarrow> string option" where
  "spec_output_reason sys fsys outputPath =
     (let folder = dirPath sys outputPath; info = QFileInfo fsys folder
      in if \<not> fileExists info then Some (''Folder '' @ quoted folder @ '' does not exist.'')
         else if \<not> isDir info then Some (quoted folder @ '' is not a folder.'')
         else if \<not> isWritable info then Some (''Folder '' @ quoted folder @ '' is not writable.'')
         else None)"

definition spec_invalid_reason ::
  "os \<Rightarrow> filesystem \<Rightarrow> string \<Rightarrow> target \<Rightarrow> string option" where
  "spec_invalid_reason sys fsys outputPath tgt =
     (case spec_target_reason sys fsys tgt of
        Some msg \<Rightarrow> Some msg
      | None \<Rightarrow> spec_output_reason sys fsys outputPath)"

section \<open>Events of the subprocess\<close>

text \<open>
  What Qt delivers for the process object of the recorder: the exit with its code, an
  error with the string the operating system gives for it (Qt stores the string in the
  object before it emits \<^verbatim>\<open>errorOccurred\<close>), and output that is ready. An object
  with no lambdas connected delivers nothing.
\<close>

datatype event = ProcessFinished int | ProcessError string | ProcessOutput string

definition setErrorString :: "string \<Rightarrow> state \<Rightarrow> state" where
  "setErrorString e st =
     ((fst st)\<lparr>m_perfRecordProcess :=
         map_option (\<lambda>q. q\<lparr>errorString := e\<rparr>) (m_perfRecordProcess (fst st))\<rparr>, snd st)"

definition isConnected :: "state \<Rightarrow> bool" where
  "isConnected st =
     (case m_perfRecordProcess (fst st) of None \<Rightarrow> False | Some q \<Rightarrow> connected q)"

fun dispatch :: "os \<Rightarrow> event \<Rightarrow> state \<Rightarrow> state option" where
  "dispatch sys (ProcessFinished exitCode) st =
     (if isConnected st then Some (onFinished sys exitCode st) else Some st)"
| "dispatch sys (ProcessError e) st =
     (if isConnected st then onErrorOccurred (setErrorString e st) else Some st)"
| "dispatch sys (ProcessOutput bytes) st =
     (if isConnected st then onReadyRead bytes st else Some st)"

fun deliver :: "os \<Rightarrow> event list \<Rightarrow> state \<Rightarrow> state option" where
  "deliver sys [] st = Some st"
| "deliver sys (e # es) st =
     (case dispatch sys e st of None \<Rightarrow> None | Some st' \<Rightarrow> deliver sys es st')"

section \<open>Reading a trace\<close>

fun emitted :: "action list \<Rightarrow> signal list" where
  "emitted [] = []"
| "emitted (Emit sig # as) = sig # emitted as"
| "emitted (a # as) = emitted as"

text \<open>The subprocesses spawned: program and arguments of each.\<close>

fun spawned :: "action list \<Rightarrow> (string \<times> string list) list" where
  "spawned [] = []"
| "spawned (Start h prog args # as) = (prog, args) # spawned as"
| "spawned (Execute prog args # as) = (prog, args) # spawned as"
| "spawned (a # as) = spawned as"

text \<open>The process objects killed.\<close>

fun killed :: "action list \<Rightarrow> nat list" where
  "killed [] = []"
| "killed (Kill h # as) = h # killed as"
| "killed (a # as) = killed as"

text \<open>The terminal notifications of a session are "finished" and "failed".\<close>

fun isTerminal :: "signal \<Rightarrow> bool" where
  "isTerminal (recordingFinished path) = True"
| "isTerminal (recordingFailed msg) = True"
| "isTerminal sig = False"

definition terminals :: "action list \<Rightarrow> nat" where
  "terminals as = length (filter isTerminal (emitted as))"

section \<open>A concrete machine\<close>

text \<open>
  A machine to run the model on: a writable directory \<^verbatim>\<open>/tmp\<close>, an empty data file
  in it that only root can read, a program \<^verbatim>\<open>/usr/bin/ls\<close>, the helper
  \<^verbatim>\<open>/usr/bin/kdesu\<close> on the search path, the user \<^verbatim>\<open>alice\<close>. A helper process
  makes the last of its arguments readable, as \<^verbatim>\<open>chown\<close> to the user does.
\<close>

definition demo_dir :: file_attrs where
  "demo_dir = \<lparr>attrDir = True, attrFile = False, attrReadable = True,
     attrWritable = True, attrExecutable = True, attrSize = 4096\<rparr>"

definition demo_data :: file_attrs where
  "demo_data = \<lparr>attrDir = False, attrFile = True, attrReadable = False,
     attrWritable = False, attrExecutable = False, attrSize = 0\<rparr>"

definition demo_exe :: file_attrs where
  "demo_exe = \<lparr>attrDir = False, attrFile = True, attrReadable = True,
     attrWritable = False, attrExecutable = True, attrSize = 100\<rparr>"

definition demo_fs :: filesystem where
  "demo_fs path =
     (if path = ''/tmp'' then Some demo_dir
      else if path = ''/tmp/perf.data'' then Some demo_data
      else if path = ''/usr/bin/ls'' then Some demo_exe
      else None)"

definition demo_chown :: "string \<Rightarrow> string list \<Rightarrow> filesystem \<Rightarrow> filesystem" where
  "demo_chown prog args fsys =
     (case rev args of
        [] \<Rightarrow> fsys
      | path # rest \<Rightarrow> fsys(path := map_option (\<lambda>a. a\<lparr>attrReadable := True\<rparr>) (fsys path)))"

definition demo_os :: os where
  "demo_os =
     \<lparr>findExecutable = (\<lambda>name. if name = ''kdesu'' then ''/usr/bin/kdesu''
                               else if name = ''ls'' then ''/usr/bin/ls'' else []),
      loginName = ''alice'', groupName = ''users'', activeWindow = 42,
      dirPath = (\<lambda>path. if path = ''/tmp/perf.data'' then ''/tmp''
                         else if path = ''/nowhere/perf.data'' then ''/nowhere'' else ''.''),
      absoluteFilePath = (\<lambda>path. path),
      runProcess = demo_chown\<rparr>"

definition demo_world :: world where
  "demo_world = \<lparr>fs = demo_fs, trace = [], fresh = 0\<rparr>"

definition demo_state :: state where
  "demo_state = (PerfRecord_ctor, demo_world)"

text \<open>
  Two states of that machine: \<open>demo_running\<close> after a request to attach to process 1
  was accepted, \<open>demo_refused\<close> after the first request ever was refused for its
  output directory.
\<close>

definition demo_running :: state where
  "demo_running = record_pids demo_os [''-g''] ''/tmp/perf.data'' False [''1''] demo_state"

definition demo_refused :: state where
  "demo_refused = record_pids demo_os [''-g''] ''/nowhere/perf.data'' False [''1''] demo_state"

section \<open>Facts about traces\<close>

lemma trace_act [simp]: "trace (act a w) = trace w @ [a]"
  by (simp add: act_def)

lemma fs_act [simp]: "fs (act a w) = fs w"
  by (simp add: act_def)

lemma fresh_act [simp]: "fresh (act a w) = fresh w"
  by (simp add: act_def)

lemma trace_emit [simp]: "trace (emit sig w) = trace w @ [Emit sig]"
  by (simp add: emit_def)

lemma fs_emit [simp]: "fs (emit sig w) = fs w"
  by (simp add: emit_def)

lemma fresh_emit [simp]: "fresh (emit sig w) = fresh w"
  by (simp add: emit_def)

lemma emitted_append [simp]: "emitted (xs @ ys) = emitted xs @ emitted ys"
  by (induction xs rule: emitted.induct) simp_all

lemma spawned_append [simp]: "spawned (xs @ ys) = spawned xs @ spawned ys"
  by (induction xs rule: spawned.induct) simp_all

lemma killed_append [simp]: "killed (xs @ ys) = killed xs @ killed ys"
  by (induction xs rule: killed.induct) simp_all

lemma terminals_append [simp]: "terminals (xs @ ys) = terminals xs + terminals ys"
  by (simp add: terminals_def)

lemma ensureFileReadable_emitted [simp]:
  "emitted (trace (snd (ensureFileReadable sys path w))) = emitted (trace w)"
  by (simp add: ensureFileReadable_def Let_def)

section \<open>Classification of the exit\<close>

text \<open>
  C1. When the subprocess terminates, the handler emits exactly one signal. It is the
  success path exactly when the exit code is zero, or it is the value of SIGTERM and the
  user-terminated flag is set, or the output file has nonzero size, and in each case
  the output file exists; every other exit emits the failure whose message holds the
  exit code in decimal. On the success path the signal is "finished" with the output
  path when the file could be made readable, and the failure "Unable to make data file
  readable." when it could not.
\<close>

theorem finished_exit_classification:
  "emitted (trace (snd (onFinished sys exitCode (p, w)))) =
     emitted (trace w) @
     [if (exitCode = 0 \<or> (exitCode = SIGTERM \<and> m_userTerminated p)
          \<or> 0 < fileSize (QFileInfo (fs w) (m_outputPath p)))
         \<and> fileExists (QFileInfo (fs w) (m_outputPath p))
      then (if fst (ensureFileReadable sys (m_outputPath p) w)
            then recordingFinished (m_outputPath p)
            else recordingFailed ''Unable to make data file readable.'')
      else recordingFailed
             (''Failed to record perf data, error code '' @ number exitCode @ ''.'')]"
  by (simp add: onFinished_def Let_def EXIT_SUCCESS_def)

section \<open>Refused start requests\<close>

lemma startRecording_rejected:
  assumes "spec_output_reason sys (fs (snd st)) outputPath = Some msg"
  shows "emitted (trace (snd (startRecording sys perfOptions outputPath recordAsSudo recordOptions workingDir st)))
           = emitted (trace (snd st)) @ [recordingFailed msg]
       \<and> spawned (trace (snd (startRecording sys perfOptions outputPath recordAsSudo recordOptions workingDir st)))
           = spawned (trace (snd st))"
  using assms
  by (auto simp: spec_output_reason_def startRecording_def Let_def split: option.splits if_splits)

text \<open>
  C2. A start request that the specification calls invalid, by its target or, with a
  valid target, by its output directory, emits exactly one signal, the failure with
  the reason for that request, and spawns no subprocess.
\<close>

theorem invalid_request_rejected:
  assumes "spec_invalid_reason sys (fs (snd st)) outputPath tgt = Some msg"
  shows "emitted (trace (snd (record_request sys perfOptions outputPath recordAsSudo tgt st)))
           = emitted (trace (snd st)) @ [recordingFailed msg]
       \<and> spawned (trace (snd (record_request sys perfOptions outputPath recordAsSudo tgt st)))
           = spawned (trace (snd st))"
proof (cases "spec_target_reason sys (fs (snd st)) tgt")
  case (Some m)
  with assms have "m = msg"
    by (simp add: spec_invalid_reason_def)
  with Some show ?thesis
    by (cases tgt)
       (auto simp: spec_target_reason_def record_request_def record_pids_def record_exe_def
          exeFile_def Let_def split: if_splits)
next
  case None
  with assms have out: "spec_output_reason sys (fs (snd st)) outputPath = Some msg"
    by (simp add: spec_invalid_reason_def)
  show ?thesis
  proof (cases tgt)
    case (ProcessIds pids)
    with None have "pids \<noteq> []"
      by (auto simp: spec_target_reason_def split: if_splits)
    with ProcessIds startRecording_rejected [OF out] show ?thesis
      by (simp add: record_request_def record_pids_def)
  next
    case (Executable exePath exeOptions workingDir)
    with None startRecording_rejected [OF out] show ?thesis
      by (auto simp: record_request_def record_exe_def spec_target_reason_def exeFile_def
            Let_def split: if_splits)
  qed
qed

theorem invalid_request_rejected_witness:
  "spec_invalid_reason demo_os (fs (snd demo_state)) ''/tmp/perf.data'' (ProcessIds []) = Some ''Process does not exist.''
   \<and> emitted (trace (snd (record_request demo_os [] ''/tmp/perf.data'' False (ProcessIds []) demo_state)))
       = [recordingFailed ''Process does not exist.'']
   \<and> spawned (trace (snd (record_request demo_os [] ''/tmp/perf.data'' False (ProcessIds []) demo_state))) = []
   \<and> spec_invalid_reason demo_os (fs (snd demo_state)) ''/nowhere/perf.data'' (Executable ''ls'' [''-l''] [])
       = Some (''Folder '' @ quoted ''/nowhere'' @ '' does not exist.'')
   \<and> emitted (trace (snd (record_request demo_os [] ''/nowhere/perf.data'' True (Executable ''ls'' [''-l''] []) demo_state)))
       = [recordingFailed (''Folder '' @ quoted ''/nowhere'' @ '' does not exist.'')]
   \<and> spawned (trace (snd (record_request demo_os [] ''/nowhere/perf.data'' True (Executable ''ls'' [''-l''] []) demo_state))) = []"
proof -
  have a: "spec_invalid_reason demo_os (fs (snd demo_state)) ''/tmp/perf.data'' (ProcessIds [])
             = Some ''Process does not exist.''"
    by (simp add: spec_invalid_reason_def spec_target_reason_def)
  have b: "spec_invalid_reason demo_os (fs (snd demo_state)) ''/nowhere/perf.data''
             (Executable ''ls'' [''-l''] [])
             = Some (''Folder '' @ quoted ''/nowhere'' @ '' does not exist.'')"
    by (simp add: spec_invalid_reason_def spec_target_reason_def spec_output_reason_def
          demo_state_def demo_world_def demo_os_def demo_fs_def QFileInfo_def fileExists_def
          isFile_def isExecutable_def demo_exe_def Let_def)
  have t: "trace (snd demo_state) = []"
    by (simp add: demo_state_def demo_world_def)
  from invalid_request_rejected [OF a, of "[]" False]
       invalid_request_rejected [OF b, of "[]" True] a b t
  show ?thesis by simp
qed

section \<open>The concrete machine, evaluated\<close>

lemmas QFileInfo_defs =
  QFileInfo_def fileExists_def isDir_def isFile_def isReadable_def isWritable_def
  isExecutable_def fileSize_def

lemma demo_running_eq:
  "demo_running =
     (\<lparr>m_perfRecordProcess = Some
         \<lparr>handle = 0, processChannelMode = MergedChannels, workingDirectory = [],
          program = ''perf'',
          arguments = [''record'', ''-o'', ''/tmp/perf.data'', ''-g'', ''--pid'', ''1''],
          errorString = ''Unknown error'', connected = True\<rparr>,
       m_outputPath = ''/tmp/perf.data'', m_userTerminated = False\<rparr>,
      \<lparr>fs = demo_fs,
       trace = [Emit (recordingStarted ''perf''
                  [''record'', ''-o'', ''/tmp/perf.data'', ''-g'', ''--pid'', ''1'']),
                Start 0 ''perf''
                  [''record'', ''-o'', ''/tmp/perf.data'', ''-g'', ''--pid'', ''1'']],
       fresh = 1\<rparr>)"
  by (simp add: demo_running_def demo_state_def demo_world_def demo_os_def PerfRecord_ctor_def
        newQProcess_def record_pids_def startRecording_def Let_def QFileInfo_defs
        demo_fs_def demo_dir_def emit_def act_def)

lemma demo_refused_eq:
  "demo_refused =
     (\<lparr>m_perfRecordProcess = Some
         \<lparr>handle = 0, processChannelMode = MergedChannels, workingDirectory = [],
          program = [], arguments = [],
          errorString = ''Unknown error'', connected = False\<rparr>,
       m_outputPath = [], m_userTerminated = False\<rparr>,
      \<lparr>fs = demo_fs,
       trace = [Emit (recordingFailed (''Folder '' @ quoted ''/nowhere'' @ '' does not exist.''))],
       fresh = 1\<rparr>)"
  by (simp add: demo_refused_def demo_state_def demo_world_def demo_os_def PerfRecord_ctor_def
        newQProcess_def record_pids_def startRecording_def Let_def QFileInfo_defs
        demo_fs_def demo_dir_def emit_def act_def)

section \<open>What a start request does to the previous process\<close>

text \<open>
  C3 as stated fails. On the concrete machine a recording is running on process
  object 0; a second request with a valid target names an output directory that does
  not exist. The request is refused with that reason and spawns nothing, and still
  object 0 has been killed and the recorder holds a new object, 1.
\<close>

theorem refused_start_kills_previous:
  "map_option handle (m_perfRecordProcess (fst demo_running)) = Some 0
   \<and> killed (trace (snd demo_running)) = []
   \<and> emitted (trace (snd (record_pids demo_os [''-g''] ''/nowhere/perf.data'' False [''2''] demo_running)))
       = emitted (trace (snd demo_running))
         @ [recordingFailed (''Folder '' @ quoted ''/nowhere'' @ '' does not exist.'')]
   \<and> spawned (trace (snd (record_pids demo_os [''-g''] ''/nowhere/perf.data'' False [''2''] demo_running)))
       = spawned (trace (snd demo_running))
   \<and> killed (trace (snd (record_pids demo_os [''-g''] ''/nowhere/perf.data'' False [''2''] demo_running)))
       = [0]
   \<and> map_option handle (m_perfRecordProcess
         (fst (record_pids demo_os [''-g''] ''/nowhere/perf.data'' False [''2''] demo_running)))
       = Some 1"
  by (simp add: demo_running_eq record_pids_def startRecording_def Let_def demo_os_def
        demo_fs_def QFileInfo_defs newQProcess_def)


lemma startRecording_kills:
  assumes "m_perfRecordProcess (fst st) = Some old"
  shows "take 2 (drop (length (trace (snd st)))
             (trace (snd (startRecording sys perfOptions outputPath recordAsSudo recordOptions workingDir st))))
           = [Kill (handle old), DeleteLater (handle old)]
       \<and> killed (trace (snd (startRecording sys perfOptions outputPath recordAsSudo recordOptions workingDir st)))
           = killed (trace (snd st)) @ [handle old]
       \<and> map_option handle (m_perfRecordProcess
             (fst (startRecording sys perfOptions outputPath recordAsSudo recordOptions workingDir st)))
           = Some (fresh (snd st))"
  using assms by (simp add: startRecording_def Let_def newQProcess_def)

text \<open>
  C3, amended. Every start request that passes the validation of its target kills the
  process object held before it and schedules its deletion, first of all, and puts a
  newly created object in its place, whatever the validation of the output directory
  then says. A request refused for its target leaves the recorder's fields, the held
  object among them, as they were and kills nothing.
\<close>

theorem start_request_replaces_process:
  "(spec_target_reason sys (fs (snd st)) tgt = None \<and> m_perfRecordProcess (fst st) = Some old \<longrightarrow>
      take 2 (drop (length (trace (snd st)))
        (trace (snd (record_request sys perfOptions outputPath recordAsSudo tgt st))))
        = [Kill (handle old), DeleteLater (handle old)]
      \<and> killed (trace (snd (record_request sys perfOptions outputPath recordAsSudo tgt st)))
          = killed (trace (snd st)) @ [handle old]
      \<and> map_option handle (m_perfRecordProcess
            (fst (record_request sys perfOptions outputPath recordAsSudo tgt st)))
          = Some (fresh (snd st)))
   \<and> (spec_target_reason sys (fs (snd st)) tgt = Some msg \<longrightarrow>
        fst (record_request sys perfOptions outputPath recordAsSudo tgt st) = fst st
      \<and> killed (trace (snd (record_request sys perfOptions outputPath recordAsSudo tgt st)))
          = killed (trace (snd st)))"
proof (intro conjI impI)
  assume a: "spec_target_reason sys (fs (snd st)) tgt = None \<and> m_perfRecordProcess (fst st) = Some old"
  then have old: "m_perfRecordProcess (fst st) = Some old" by simp
  have "\<exists>ro wd. record_request sys perfOptions outputPath recordAsSudo tgt st
          = startRecording sys perfOptions outputPath recordAsSudo ro wd st"
  proof (cases tgt)
    case (ProcessIds pids)
    with a show ?thesis
      by (auto simp: record_request_def record_pids_def spec_target_reason_def split: if_splits)
  next
    case (Executable exePath exeOptions workingDir)
    with a show ?thesis
      by (auto simp: record_request_def record_exe_def spec_target_reason_def exeFile_def
            Let_def split: if_splits)
  qed
  then obtain ro wd where eq: "record_request sys perfOptions outputPath recordAsSudo tgt st
          = startRecording sys perfOptions outputPath recordAsSudo ro wd st" by blast
  from startRecording_kills [OF old, of sys perfOptions outputPath recordAsSudo ro wd]
  show "take 2 (drop (length (trace (snd st)))
        (trace (snd (record_request sys perfOptions outputPath recordAsSudo tgt st))))
        = [Kill (handle old), DeleteLater (handle old)]"
    and "killed (trace (snd (record_request sys perfOptions outputPath recordAsSudo tgt st)))
          = killed (trace (snd st)) @ [handle old]"
    and "map_option handle (m_perfRecordProcess
            (fst (record_request sys perfOptions outputPath recordAsSudo tgt st)))
          = Some (fresh (snd st))"
    by (simp_all add: eq)
next
  assume b: "spec_target_reason sys (fs (snd st)) tgt = Some msg"
  then show "fst (record_request sys perfOptions outputPath recordAsSudo tgt st) = fst st"
    by (cases tgt)
       (auto simp: record_request_def record_pids_def record_exe_def spec_target_reason_def
          exeFile_def Let_def split: if_splits)
  from b show "killed (trace (snd (record_request sys perfOptions outputPath recordAsSudo tgt st)))
          = killed (trace (snd st))"
    by (cases tgt)
       (auto simp: record_request_def record_pids_def record_exe_def spec_target_reason_def
          exeFile_def Let_def split: if_splits)
qed

theorem start_request_replaces_process_witness:
  "spec_target_reason demo_os (fs (snd demo_running)) (ProcessIds [''2'']) = None
   \<and> spec_output_reason demo_os (fs (snd demo_running)) ''/nowhere/perf.data''
       = Some (''Folder '' @ quoted ''/nowhere'' @ '' does not exist.'')
   \<and> map_option handle (m_perfRecordProcess (fst demo_running)) = Some 0
   \<and> killed (trace (snd (record_request demo_os [] ''/nowhere/perf.data'' False (ProcessIds [''2'']) demo_running)))
       = [0]
   \<and> map_option handle (m_perfRecordProcess
         (fst (record_request demo_os [] ''/nowhere/perf.data'' False (ProcessIds [''2'']) demo_running)))
       = Some 1
   \<and> spec_target_reason demo_os (fs (snd demo_running)) (ProcessIds []) = Some ''Process does not exist.''
   \<and> fst (record_request demo_os [] ''/nowhere/perf.data'' False (ProcessIds []) demo_running)
       = fst demo_running
   \<and> killed (trace (snd (record_request demo_os [] ''/nowhere/perf.data'' False (ProcessIds []) demo_running)))
       = []"
proof -
  have a: "spec_target_reason demo_os (fs (snd demo_running)) (ProcessIds [''2'']) = None"
    by (simp add: spec_target_reason_def)
  have b: "spec_target_reason demo_os (fs (snd demo_running)) (ProcessIds [])
             = Some ''Process does not exist.''"
    by (simp add: spec_target_reason_def)
  have c: "spec_output_reason demo_os (fs (snd demo_running)) ''/nowhere/perf.data''
             = Some (''Folder '' @ quoted ''/nowhere'' @ '' does not exist.'')"
    by (simp add: spec_output_reason_def demo_running_eq demo_os_def demo_fs_def
          QFileInfo_defs Let_def)
  have d: "m_perfRecordProcess (fst demo_running) = Some (the (m_perfRecordProcess (fst demo_running)))"
    and e: "handle (the (m_perfRecordProcess (fst demo_running))) = 0"
    and f: "killed (trace (snd demo_running)) = []" and g: "fresh (snd demo_running) = 1"
    and h: "map_option handle (m_perfRecordProcess (fst demo_running)) = Some 0"
    by (simp_all add: demo_running_eq)
  from start_request_replaces_process
         [of demo_os demo_running "ProcessIds [''2'']" "the (m_perfRecordProcess (fst demo_running))"
            "[]" "''/nowhere/perf.data''" False "''Process does not exist.''"] a d
  have k: "killed (trace (snd (record_request demo_os [] ''/nowhere/perf.data'' False
                (ProcessIds [''2'']) demo_running))) = [0]"
    and n: "map_option handle (m_perfRecordProcess
         (fst (record_request demo_os [] ''/nowhere/perf.data'' False (ProcessIds [''2'']) demo_running)))
       = Some 1"
    by (simp_all only: e f g simp_thms append_Nil)
  from start_request_replaces_process
         [of demo_os demo_running "ProcessIds []" "the (m_perfRecordProcess (fst demo_running))"
            "[]" "''/nowhere/perf.data''" False "''Process does not exist.''"] b
  have u: "fst (record_request demo_os [] ''/nowhere/perf.data'' False (ProcessIds []) demo_running)
       = fst demo_running"
    and v: "killed (trace (snd (record_request demo_os [] ''/nowhere/perf.data'' False (ProcessIds []) demo_running)))
       = []"
    by (simp_all only: f simp_thms)
  from a b c h k n u v show ?thesis
    by (intro conjI)
qed

section \<open>The elevated command line\<close>

text \<open>
  C4. An elevated start request that passes validation starts one subprocess: the
  program is the resolved sudo helper, the arguments are \<^verbatim>\<open>-u root\<close>, then
  \<^verbatim>\<open>-t --attach <window-id>\<close> exactly when the helper's path ends in \<^verbatim>\<open>/kdesu\<close>,
  then \<^verbatim>\<open>-- perf record -o <output>\<close> and the perf options, then
  \<^verbatim>\<open>-- runuser -u <invoking user> --\<close>, then the target command and its arguments.
  The one signal emitted is "recording started" with this same program and list.
\<close>

theorem elevated_command_line:
  assumes "fileExists (QFileInfo (fs (snd st)) (dirPath sys outputPath))"
      and "isDir (QFileInfo (fs (snd st)) (dirPath sys outputPath))"
      and "isWritable (QFileInfo (fs (snd st)) (dirPath sys outputPath))"
  shows "emitted (trace (snd (startRecording sys perfOptions outputPath True recordOptions workingDir st)))
           = emitted (trace (snd st)) @
             [recordingStarted (sudoUtil sys)
                ([''-u'', ''root'']
                 @ (if endsWith (sudoUtil sys) ''/kdesu''
                    then [''-t'', ''--attach'', number_nat (activeWindow sys)] else [])
                 @ [''--'', ''perf'', ''record'', ''-o'', outputPath] @ perfOptions
                 @ [''--'', ''runuser'', ''-u'', loginName sys, ''--''] @ recordOptions)]
       \<and> spawned (trace (snd (startRecording sys perfOptions outputPath True recordOptions workingDir st)))
           = spawned (trace (snd st)) @
             [(sudoUtil sys,
                [''-u'', ''root'']
                 @ (if endsWith (sudoUtil sys) ''/kdesu''
                    then [''-t'', ''--attach'', number_nat (activeWindow sys)] else [])
                 @ [''--'', ''perf'', ''record'', ''-o'', outputPath] @ perfOptions
                 @ [''--'', ''runuser'', ''-u'', loginName sys, ''--''] @ recordOptions)]"
  using assms
  by (cases "m_perfRecordProcess (fst st)")
     (simp_all add: startRecording_def Let_def sudoOptions_def currentUsername_def)

lemma sudoUtil_demo: "sudoUtil demo_os = ''/usr/bin/kdesu''"
  by (simp add: sudoUtil_def demo_os_def)

theorem elevated_command_line_witness:
  "fileExists (QFileInfo (fs (snd demo_state)) (dirPath demo_os ''/tmp/perf.data''))
   \<and> isDir (QFileInfo (fs (snd demo_state)) (dirPath demo_os ''/tmp/perf.data''))
   \<and> isWritable (QFileInfo (fs (snd demo_state)) (dirPath demo_os ''/tmp/perf.data''))
   \<and> emitted (trace (snd (startRecording demo_os [''-g''] ''/tmp/perf.data'' True
         [''/usr/bin/ls'', ''-l''] [] demo_state)))
       = [recordingStarted ''/usr/bin/kdesu''
            [''-u'', ''root'', ''-t'', ''--attach'', ''42'', ''--'', ''perf'', ''record'', ''-o'',
             ''/tmp/perf.data'', ''-g'', ''--'', ''runuser'', ''-u'', ''alice'', ''--'',
             ''/usr/bin/ls'', ''-l'']]
   \<and> spawned (trace (snd (startRecording demo_os [''-g''] ''/tmp/perf.data'' True
         [''/usr/bin/ls'', ''-l''] [] demo_state)))
       = [(''/usr/bin/kdesu'',
            [''-u'', ''root'', ''-t'', ''--attach'', ''42'', ''--'', ''perf'', ''record'', ''-o'',
             ''/tmp/perf.data'', ''-g'', ''--'', ''runuser'', ''-u'', ''alice'', ''--'',
             ''/usr/bin/ls'', ''-l''])]"
proof -
  have a: "fileExists (QFileInfo (fs (snd demo_state)) (dirPath demo_os ''/tmp/perf.data''))"
    and b: "isDir (QFileInfo (fs (snd demo_state)) (dirPath demo_os ''/tmp/perf.data''))"
    and c: "isWritable (QFileInfo (fs (snd demo_state)) (dirPath demo_os ''/tmp/perf.data''))"
    by (simp_all add: demo_state_def demo_world_def demo_os_def demo_fs_def demo_dir_def
          QFileInfo_defs)
  have t: "trace (snd demo_state) = []"
    by (simp add: demo_state_def demo_world_def)
  have n: "number_nat (activeWindow demo_os) = ''42''" and l: "loginName demo_os = ''alice''"
    by (simp_all add: demo_os_def number_nat.simps)
  have e: "endsWith ''/usr/bin/kdesu'' ''/kdesu''"
    by (simp add: endsWith_def)
  from elevated_command_line [OF a b c, of "[''-g'']" "[''/usr/bin/ls'', ''-l'']" "[]"] a b c
  show ?thesis
    by (simp add: sudoUtil_demo t n l e)
qed

section \<open>Stopping\<close>

text \<open>
  C7 as stated fails. After the first request ever was refused for its output
  directory no subprocess has been spawned, so none is active; the recorder holds the
  process object it created before validating. \<^verbatim>\<open>stopRecording\<close> then sets the
  user-terminated flag, which was clear: it is not a no-op.
\<close>

theorem stop_after_refused_start_sets_flag:
  "spawned (trace (snd demo_refused)) = []
   \<and> \<not> m_userTerminated (fst demo_refused)
   \<and> m_userTerminated (fst (stopRecording demo_refused))
   \<and> stopRecording demo_refused \<noteq> demo_refused"
  by (simp add: demo_refused_eq stopRecording_def)

text \<open>
  C7, amended. What \<^verbatim>\<open>stopRecording\<close> tests is whether a process object is held,
  not whether a subprocess runs. With an object held it sets the user-terminated flag,
  changes no other field, and sends that object the terminate signal and nothing else
  (no kill). With no object held, which is the case only before the first call of
  \<^verbatim>\<open>startRecording\<close>, it changes nothing at all.
\<close>

theorem stop_terminates_held_process:
  "(m_perfRecordProcess (fst st) = Some q \<longrightarrow>
      fst (stopRecording st) = (fst st)\<lparr>m_userTerminated := True\<rparr>
    \<and> snd (stopRecording st) = (snd st)\<lparr>trace := trace (snd st) @ [Terminate (handle q)]\<rparr>
    \<and> killed (trace (snd (stopRecording st))) = killed (trace (snd st)))
   \<and> (m_perfRecordProcess (fst st) = None \<longrightarrow> stopRecording st = st)"
  by (simp add: stopRecording_def act_def)

theorem stop_terminates_held_process_witness:
  "m_perfRecordProcess (fst demo_refused) = Some ((newQProcess 0)\<lparr>processChannelMode := MergedChannels\<rparr>)
   \<and> fst (stopRecording demo_refused) = (fst demo_refused)\<lparr>m_userTerminated := True\<rparr>
   \<and> snd (stopRecording demo_refused)
       = (snd demo_refused)\<lparr>trace := trace (snd demo_refused) @ [Terminate 0]\<rparr>
   \<and> killed (trace (snd (stopRecording demo_refused))) = []
   \<and> m_perfRecordProcess (fst demo_state) = None
   \<and> stopRecording demo_state = demo_state"
proof -
  have a: "m_perfRecordProcess (fst demo_refused)
             = Some ((newQProcess 0)\<lparr>processChannelMode := MergedChannels\<rparr>)"
    by (simp add: demo_refused_eq newQProcess_def)
  have b: "m_perfRecordProcess (fst demo_state) = None"
    by (simp add: demo_state_def PerfRecord_ctor_def)
  have k: "killed (trace (snd demo_refused)) = []"
    by (simp add: demo_refused_eq)
  have h: "handle ((newQProcess 0)\<lparr>processChannelMode := MergedChannels\<rparr>) = 0"
    by (simp add: newQProcess_def)
  from stop_terminates_held_process
         [of demo_refused "(newQProcess 0)\<lparr>processChannelMode := MergedChannels\<rparr>"]
       stop_terminates_held_process [of demo_state undefined] a b k h
  show ?thesis by simp
qed

section \<open>The displayed command\<close>

text \<open>
  C9 as stated fails. After the first request ever was refused for its output
  directory nothing has been spawned and no output path has been stored, so no
  recording command has been configured; \<^verbatim>\<open>perfCommand\<close> returns \<^verbatim>\<open>"perf "\<close>, not
  the empty string.
\<close>

theorem perfCommand_after_refused_start:
  "spawned (trace (snd demo_refused)) = []
   \<and> m_outputPath (fst demo_refused) = []
   \<and> perfCommand (fst demo_refused) = ''perf ''
   \<and> perfCommand (fst demo_refused) \<noteq> []"
  by (simp add: demo_refused_eq perfCommand_def)

text \<open>
  C9, amended. \<^verbatim>\<open>perfCommand\<close> is a function of the recorder's fields alone. It
  returns the empty string exactly when no process object is held. After a start
  request that passed validation it returns \<^verbatim>\<open>perf\<close>, a space, and the arguments the
  subprocess was started with, joined by spaces; without elevation that is
  \<^verbatim>\<open>perf record -o <output>\<close>, the perf options and the target. After a start
  request refused for its output directory it returns \<^verbatim>\<open>"perf "\<close>.
\<close>

theorem perfCommand_value:
  "(perfCommand p = [] \<longleftrightarrow> m_perfRecordProcess p = None)
   \<and> (fileExists (QFileInfo (fs (snd st)) (dirPath sys outputPath))
        \<and> isDir (QFileInfo (fs (snd st)) (dirPath sys outputPath))
        \<and> isWritable (QFileInfo (fs (snd st)) (dirPath sys outputPath)) \<longrightarrow>
      perfCommand (fst (startRecording sys perfOptions outputPath False recordOptions workingDir st))
        = ''perf '' @ join '' '' ([''record'', ''-o'', outputPath] @ perfOptions @ recordOptions)
      \<and> perfCommand (fst (startRecording sys perfOptions outputPath recordAsSudo recordOptions workingDir st))
        = ''perf '' @ join '' '' (snd (last (spawned (trace (snd
            (startRecording sys perfOptions outputPath recordAsSudo recordOptions workingDir st)))))))
   \<and> (spec_output_reason sys (fs (snd st)) outputPath = Some msg \<longrightarrow>
      perfCommand (fst (startRecording sys perfOptions outputPath recordAsSudo recordOptions workingDir st))
        = ''perf '')"
  by (auto simp: perfCommand_def startRecording_def Let_def spec_output_reason_def newQProcess_def
        split: option.splits if_splits)


theorem perfCommand_value_witness:
  "(perfCommand (fst demo_state) = [] \<longleftrightarrow> m_perfRecordProcess (fst demo_state) = None)
   \<and> fileExists (QFileInfo (fs (snd demo_state)) (dirPath demo_os ''/tmp/perf.data''))
   \<and> isDir (QFileInfo (fs (snd demo_state)) (dirPath demo_os ''/tmp/perf.data''))
   \<and> isWritable (QFileInfo (fs (snd demo_state)) (dirPath demo_os ''/tmp/perf.data''))
   \<and> perfCommand (fst (startRecording demo_os [''-g''] ''/tmp/perf.data'' False
         [''--pid'', ''1''] [] demo_state))
       = ''perf record -o /tmp/perf.data -g --pid 1''
   \<and> spec_output_reason demo_os (fs (snd demo_state)) ''/nowhere/perf.data''
       = Some (''Folder '' @ quoted ''/nowhere'' @ '' does not exist.'')
   \<and> perfCommand (fst (startRecording demo_os [''-g''] ''/nowhere/perf.data'' False
         [''--pid'', ''1''] [] demo_state))
       = ''perf ''"
proof -
  have a: "fileExists (QFileInfo (fs (snd demo_state)) (dirPath demo_os ''/tmp/perf.data''))"
    and b: "isDir (QFileInfo (fs (snd demo_state)) (dirPath demo_os ''/tmp/perf.data''))"
    and c: "isWritable (QFileInfo (fs (snd demo_state)) (dirPath demo_os ''/tmp/perf.data''))"
    by (simp_all add: demo_state_def demo_world_def demo_os_def demo_fs_def demo_dir_def
          QFileInfo_defs)
  have d: "spec_output_reason demo_os (fs (snd demo_state)) ''/nowhere/perf.data''
             = Some (''Folder '' @ quoted ''/nowhere'' @ '' does not exist.'')"
    by (simp add: spec_output_reason_def demo_state_def demo_world_def demo_os_def demo_fs_def
          QFileInfo_defs Let_def)
  from perfCommand_value
         [of "fst demo_state" demo_state demo_os "''/tmp/perf.data''" "[''-g'']"
            "[''--pid'', ''1'']" "[]" False "[]"]
       perfCommand_value
         [of "fst demo_state" demo_state demo_os "''/nowhere/perf.data''" "[''-g'']"
            "[''--pid'', ''1'']" "[]" False "''Folder '' @ quoted ''/nowhere'' @ '' does not exist.''"]
       a b c d
  show ?thesis by simp
qed

section \<open>Terminal notifications of a session\<close>

lemma deliver_append:
  "deliver sys (es @ fs') st =
     (case deliver sys es st of None \<Rightarrow> None | Some st' \<Rightarrow> deliver sys fs' st')"
  by (induction es arbitrary: st) (simp_all split: option.splits)

lemma deliver_outputs:
  "isConnected st \<Longrightarrow>
     deliver sys (map ProcessOutput outs) st =
       Some (fst st, (snd st)\<lparr>trace := trace (snd st) @ map (\<lambda>b. Emit (recordingOutput b)) outs\<rparr>)"
proof (induction outs arbitrary: st)
  case Nil
  then show ?case by simp
next
  case (Cons b outs)
  from Cons.prems obtain q where q: "m_perfRecordProcess (fst st) = Some q" "connected q"
    by (auto simp: isConnected_def split: option.splits)
  let ?st1 = "(fst st, emit (recordingOutput b) (snd st))"
  have step: "dispatch sys (ProcessOutput b) st = Some ?st1"
    using Cons.prems q by (simp add: onReadyRead_def)
  have conn: "isConnected ?st1"
    using q by (simp add: isConnected_def)
  show ?case
    using Cons.IH [OF conn] step by (simp add: emit_def act_def)
qed

lemma terminals_outputs [simp]:
  "terminals (map (\<lambda>b. Emit (recordingOutput b)) outs) = 0"
  by (induction outs) (simp_all add: terminals_def)

lemma terminals_onFinished:
  "terminals (trace (snd (onFinished sys exitCode st))) = Suc (terminals (trace (snd st)))"
  by (simp add: onFinished_def Let_def terminals_def)

text \<open>
  C5 as stated fails. On the concrete machine a recording is running; the subprocess
  writes some output and crashes, for which Qt delivers the process error and then the
  exit. Both handlers emit a failure: the session has two terminal notifications.
\<close>

theorem crash_notifies_twice:
  "terminals (trace (snd demo_running)) = 0
   \<and> map_option (\<lambda>s. emitted (trace (snd s)))
        (deliver demo_os [ProcessOutput ''sampling'', ProcessError ''Process crashed'',
           ProcessFinished 11] demo_running)
       = Some [recordingStarted ''perf''
                 [''record'', ''-o'', ''/tmp/perf.data'', ''-g'', ''--pid'', ''1''],
               recordingOutput ''sampling'',
               recordingFailed ''Process crashed'',
               recordingFailed ''Failed to record perf data, error code 11.'']
   \<and> map_option (\<lambda>s. terminals (trace (snd s)))
        (deliver demo_os [ProcessOutput ''sampling'', ProcessError ''Process crashed'',
           ProcessFinished 11] demo_running)
       = Some 2"
  by (simp add: demo_running_eq isConnected_def onReadyRead_def onErrorOccurred_def
        setErrorString_def onFinished_def Let_def EXIT_SUCCESS_def SIGTERM_def QFileInfo_defs
        demo_fs_def demo_data_def terminals_def number_def number_nat.simps)

text \<open>
  C5, amended. A session whose events are any number of outputs and then the exit has
  exactly one terminal notification more than before, whatever the exit code: the
  handler of the exit emits exactly one, the handler of output emits none. The handler
  of a process error emits one more failure when the user-terminated flag is clear and
  none when it is set, so a process error that comes with the exit makes two.
\<close>

theorem terminal_notifications_per_event:
  "(isConnected st \<longrightarrow>
      map_option (\<lambda>s. terminals (trace (snd s)))
        (deliver sys (map ProcessOutput outs @ [ProcessFinished exitCode]) st)
        = Some (Suc (terminals (trace (snd st)))))
   \<and> terminals (trace (snd (onFinished sys exitCode st))) = Suc (terminals (trace (snd st)))
   \<and> (m_perfRecordProcess (fst st) \<noteq> None \<longrightarrow>
        map_option (\<lambda>s. terminals (trace (snd s))) (onErrorOccurred st)
          = Some (terminals (trace (snd st)) + (if m_userTerminated (fst st) then 0 else 1))
      \<and> map_option (\<lambda>s. terminals (trace (snd s))) (onReadyRead bytes st)
          = Some (terminals (trace (snd st))))"
proof (intro conjI impI)
  assume c: "isConnected st"
  let ?st1 = "(fst st, (snd st)\<lparr>trace := trace (snd st) @ map (\<lambda>b. Emit (recordingOutput b)) outs\<rparr>)"
  have c1: "isConnected ?st1"
    using c by (simp add: isConnected_def)
  have "deliver sys (map ProcessOutput outs @ [ProcessFinished exitCode]) st
          = Some (onFinished sys exitCode ?st1)"
    using c1 by (simp add: deliver_append deliver_outputs [OF c])
  then show "map_option (\<lambda>s. terminals (trace (snd s)))
        (deliver sys (map ProcessOutput outs @ [ProcessFinished exitCode]) st)
        = Some (Suc (terminals (trace (snd st))))"
    by (simp add: terminals_onFinished)
next
  show "terminals (trace (snd (onFinished sys exitCode st))) = Suc (terminals (trace (snd st)))"
    by (rule terminals_onFinished)
next
  assume "m_perfRecordProcess (fst st) \<noteq> None"
  then show "map_option (\<lambda>s. terminals (trace (snd s))) (onErrorOccurred st)
          = Some (terminals (trace (snd st)) + (if m_userTerminated (fst st) then 0 else 1))"
    by (cases st) (auto simp: onErrorOccurred_def Let_def terminals_def)
next
  assume "m_perfRecordProcess (fst st) \<noteq> None"
  then show "map_option (\<lambda>s. terminals (trace (snd s))) (onReadyRead bytes st)
          = Some (terminals (trace (snd st)))"
    by (cases st) (auto simp: onReadyRead_def Let_def terminals_def)
qed

theorem terminal_notifications_per_event_witness:
  "isConnected demo_running
   \<and> m_perfRecordProcess (fst demo_running) \<noteq> None
   \<and> map_option (\<lambda>s. terminals (trace (snd s)))
        (deliver demo_os (map ProcessOutput [''a'', ''b''] @ [ProcessFinished 0]) demo_running)
       = Some 1
   \<and> terminals (trace (snd (onFinished demo_os 0 demo_running))) = 1
   \<and> map_option (\<lambda>s. terminals (trace (snd s))) (onErrorOccurred demo_running) = Some 1
   \<and> map_option (\<lambda>s. terminals (trace (snd s))) (onReadyRead ''a'' demo_running) = Some 0"
proof -
  have a: "isConnected demo_running" and b: "m_perfRecordProcess (fst demo_running) \<noteq> None"
    and c: "terminals (trace (snd demo_running)) = 0"
    and d: "\<not> m_userTerminated (fst demo_running)"
    by (simp_all add: demo_running_eq isConnected_def terminals_def)
  from terminal_notifications_per_event [of demo_running demo_os "[''a'', ''b'']" 0 "''a''"] a b c d
  show ?thesis by simp
qed

section \<open>Process errors\<close>

text \<open>
  C6. The handler of a process error emits the failure that carries the error string of
  the process when the user-terminated flag is clear, and does nothing at all when it
  is set. With the event as Qt delivers it, the string is the one the operating system
  gave. After \<^verbatim>\<open>stopRecording\<close> on a held process the flag is set, so a process error
  that comes with the exit of the subprocess emits nothing.
\<close>

theorem process_error_notification:
  assumes "m_perfRecordProcess (fst st) = Some q"
  shows "onErrorOccurred st =
           Some (fst st, if m_userTerminated (fst st) then snd st
                         else emit (recordingFailed (errorString q)) (snd st))
       \<and> onErrorOccurred (stopRecording st) = Some (stopRecording st)
       \<and> (connected q \<longrightarrow>
            map_option (\<lambda>s. emitted (trace (snd s))) (dispatch sys (ProcessError e) st)
              = Some (emitted (trace (snd st))
                      @ (if m_userTerminated (fst st) then [] else [recordingFailed e]))
          \<and> map_option (\<lambda>s. emitted (trace (snd s)))
              (dispatch sys (ProcessError e) (stopRecording st))
              = Some (emitted (trace (snd st))))"
  using assms
  by (cases st)
     (simp add: onErrorOccurred_def stopRecording_def Let_def isConnected_def
        setErrorString_def)

theorem process_error_notification_witness:
  "m_perfRecordProcess (fst demo_running)
     = Some (the (m_perfRecordProcess (fst demo_running)))
   \<and> connected (the (m_perfRecordProcess (fst demo_running)))
   \<and> \<not> m_userTerminated (fst demo_running)
   \<and> map_option (\<lambda>s. emitted (trace (snd s)))
        (dispatch demo_os (ProcessError ''execve: No such file or directory'') demo_running)
       = Some (emitted (trace (snd demo_running))
               @ [recordingFailed ''execve: No such file or directory''])
   \<and> onErrorOccurred (stopRecording demo_running) = Some (stopRecording demo_running)
   \<and> map_option (\<lambda>s. emitted (trace (snd s)))
        (dispatch demo_os (ProcessError ''execve: No such file or directory'')
           (stopRecording demo_running))
       = Some (emitted (trace (snd demo_running)))"
proof -
  have a: "m_perfRecordProcess (fst demo_running)
             = Some (the (m_perfRecordProcess (fst demo_running)))"
    and b: "connected (the (m_perfRecordProcess (fst demo_running)))"
    and c: "\<not> m_userTerminated (fst demo_running)"
    by (simp_all add: demo_running_eq)
  from process_error_notification
         [OF a, of demo_os "''execve: No such file or directory''"] b c
  have "map_option (\<lambda>s. emitted (trace (snd s)))
        (dispatch demo_os (ProcessError ''execve: No such file or directory'') demo_running)
       = Some (emitted (trace (snd demo_running))
               @ [recordingFailed ''execve: No such file or directory''])"
    and "onErrorOccurred (stopRecording demo_running) = Some (stopRecording demo_running)"
    and "map_option (\<lambda>s. emitted (trace (snd s)))
        (dispatch demo_os (ProcessError ''execve: No such file or directory'')
           (stopRecording demo_running))
       = Some (emitted (trace (snd demo_running)))"
    by simp_all
  with a b c show ?thesis by (intro conjI)
qed

section \<open>Readability of the data file\<close>

text \<open>
  C8. On a file that is readable \<^verbatim>\<open>ensureFileReadable\<close> returns true and does
  nothing, so it runs no helper. On a file that is not readable it returns false,
  again doing nothing, when no sudo helper is found or the user name is empty;
  otherwise it runs exactly one process to completion, the helper with its own flags
  and \<^verbatim>\<open>-- chown <user>:<group> <file>\<close>, and returns what the readability check
  says on the file system that process left behind.
\<close>

theorem ensureFileReadable_result:
  "(isReadable (QFileInfo (fs w) filePath) \<longrightarrow> ensureFileReadable sys filePath w = (True, w))
   \<and> (\<not> isReadable (QFileInfo (fs w) filePath)
        \<and> (sudoUtil sys = [] \<or> currentUsername sys = []) \<longrightarrow>
      ensureFileReadable sys filePath w = (False, w))
   \<and> (\<not> isReadable (QFileInfo (fs w) filePath)
        \<and> sudoUtil sys \<noteq> [] \<and> currentUsername sys \<noteq> [] \<longrightarrow>
      trace (snd (ensureFileReadable sys filePath w))
        = trace w @
          [Execute (sudoUtil sys)
             (sudoOptions sys (sudoUtil sys)
              @ [''--'', ''chown'', currentUsername sys @ '':'' @ groupName sys, filePath])]
      \<and> fs (snd (ensureFileReadable sys filePath w))
        = runProcess sys (sudoUtil sys)
            (sudoOptions sys (sudoUtil sys)
              @ [''--'', ''chown'', currentUsername sys @ '':'' @ groupName sys, filePath]) (fs w)
      \<and> fst (ensureFileReadable sys filePath w)
        = isReadable (QFileInfo (fs (snd (ensureFileReadable sys filePath w))) filePath))"
  by (simp add: ensureFileReadable_def Let_def)


theorem ensureFileReadable_result_witness:
  "isReadable (QFileInfo (fs demo_world) ''/usr/bin/ls'')
   \<and> ensureFileReadable demo_os ''/usr/bin/ls'' demo_world = (True, demo_world)
   \<and> \<not> isReadable (QFileInfo (fs demo_world) ''/tmp/perf.data'')
   \<and> sudoUtil (demo_os\<lparr>findExecutable := (\<lambda>name. [])\<rparr>) = []
   \<and> ensureFileReadable (demo_os\<lparr>findExecutable := (\<lambda>name. [])\<rparr>) ''/tmp/perf.data'' demo_world
       = (False, demo_world)
   \<and> sudoUtil demo_os \<noteq> [] \<and> currentUsername demo_os \<noteq> []
   \<and> trace (snd (ensureFileReadable demo_os ''/tmp/perf.data'' demo_world))
       = [Execute ''/usr/bin/kdesu''
            [''-u'', ''root'', ''-t'', ''--attach'', ''42'', ''--'', ''chown'', ''alice:users'',
             ''/tmp/perf.data'']]
   \<and> fst (ensureFileReadable demo_os ''/tmp/perf.data'' demo_world)"
proof -
  have a: "isReadable (QFileInfo (fs demo_world) ''/usr/bin/ls'')"
    and b: "\<not> isReadable (QFileInfo (fs demo_world) ''/tmp/perf.data'')"
    by (simp_all add: demo_world_def demo_fs_def demo_exe_def demo_data_def QFileInfo_defs)
  have c: "sudoUtil (demo_os\<lparr>findExecutable := (\<lambda>name. [])\<rparr>) = []"
    by (simp add: sudoUtil_def)
  have d: "sudoUtil demo_os \<noteq> []"
    by (simp add: sudoUtil_demo)
  have e: "currentUsername demo_os \<noteq> []"
    by (simp add: currentUsername_def demo_os_def)
  have t: "trace demo_world = []"
    by (simp add: demo_world_def)
  have o: "sudoOptions demo_os ''/usr/bin/kdesu'' = [''-u'', ''root'', ''-t'', ''--attach'', ''42'']"
    by (simp add: sudoOptions_def endsWith_def demo_os_def number_nat.simps)
  have u: "currentUsername demo_os = ''alice''" and g: "groupName demo_os = ''users''"
    and r: "runProcess demo_os = demo_chown"
    by (simp_all add: currentUsername_def demo_os_def)
  have f: "isReadable (QFileInfo (demo_chown ''/usr/bin/kdesu''
             [''-u'', ''root'', ''-t'', ''--attach'', ''42'', ''--'', ''chown'', ''alice:users'',
              ''/tmp/perf.data''] (fs demo_world)) ''/tmp/perf.data'')"
    by (simp add: demo_chown_def demo_world_def demo_fs_def demo_data_def QFileInfo_defs)
  from ensureFileReadable_result [of demo_world "''/usr/bin/ls''" demo_os] a
  have 1: "ensureFileReadable demo_os ''/usr/bin/ls'' demo_world = (True, demo_world)"
    by simp
  from ensureFileReadable_result
         [of demo_world "''/tmp/perf.data''" "demo_os\<lparr>findExecutable := (\<lambda>name. [])\<rparr>"] b c
  have 2: "ensureFileReadable (demo_os\<lparr>findExecutable := (\<lambda>name. [])\<rparr>) ''/tmp/perf.data''
             demo_world = (False, demo_world)"
    by simp
  from ensureFileReadable_result [of demo_world "''/tmp/perf.data''" demo_os] b d e
  have 3: "trace (snd (ensureFileReadable demo_os ''/tmp/perf.data'' demo_world))
       = [Execute ''/usr/bin/kdesu''
            [''-u'', ''root'', ''-t'', ''--attach'', ''42'', ''--'', ''chown'', ''alice:users'',
             ''/tmp/perf.data'']]"
    and 4: "fst (ensureFileReadable demo_os ''/tmp/perf.data'' demo_world)"
    using f by (simp_all add: sudoUtil_demo o u g r t)
  from a b c d e 1 2 3 4 show ?thesis by (intro conjI)
qed

section \<open>The user-terminated flag across sessions\<close>

lemma startRecording_keeps_flag:
  "m_userTerminated (fst (startRecording sys perfOptions outputPath recordAsSudo recordOptions workingDir st))
     = m_userTerminated (fst st)"
  by (simp add: startRecording_def Let_def)

lemma startRecording_fs:
  "fs (snd (startRecording sys perfOptions outputPath recordAsSudo recordOptions workingDir st))
     = fs (snd st)"
  by (cases "m_perfRecordProcess (fst st)") (simp_all add: startRecording_def Let_def)

lemma startRecording_outputPath:
  assumes "fileExists (QFileInfo (fs (snd st)) (dirPath sys outputPath))"
      and "isDir (QFileInfo (fs (snd st)) (dirPath sys outputPath))"
      and "isWritable (QFileInfo (fs (snd st)) (dirPath sys outputPath))"
  shows "m_outputPath (fst (startRecording sys perfOptions outputPath recordAsSudo recordOptions workingDir st))
           = outputPath"
  using assms
  by (cases "m_perfRecordProcess (fst st)") (simp_all add: startRecording_def Let_def)

lemma stopRecording_fs: "fs (snd (stopRecording st)) = fs (snd st)"
  by (simp add: stopRecording_def split: option.splits)

text \<open>
  C10. \<^verbatim>\<open>startRecording\<close> leaves the user-terminated flag as it finds it. So when
  \<^verbatim>\<open>stopRecording\<close> was called on a held process and the handler of the exit has
  not run since, the flag is still set after the next start: the handler of a process
  error then emits nothing, and an exit of the new session with the value of SIGTERM
  takes the success path as soon as the output file exists, even when it is empty.
\<close>

theorem flag_survives_start:
  "m_userTerminated (fst (startRecording sys perfOptions outputPath recordAsSudo recordOptions workingDir st))
     = m_userTerminated (fst st)
   \<and> (m_perfRecordProcess (fst st) \<noteq> None \<longrightarrow>
        m_userTerminated (fst (startRecording sys perfOptions outputPath recordAsSudo
           recordOptions workingDir (stopRecording st)))
      \<and> onErrorOccurred (startRecording sys perfOptions outputPath recordAsSudo
           recordOptions workingDir (stopRecording st))
          = Some (startRecording sys perfOptions outputPath recordAsSudo
           recordOptions workingDir (stopRecording st)))
   \<and> (m_perfRecordProcess (fst st) \<noteq> None
        \<and> fileExists (QFileInfo (fs (snd st)) (dirPath sys outputPath))
        \<and> isDir (QFileInfo (fs (snd st)) (dirPath sys outputPath))
        \<and> isWritable (QFileInfo (fs (snd st)) (dirPath sys outputPath))
        \<and> fileExists (QFileInfo (fs (snd st)) outputPath) \<longrightarrow>
      emitted (trace (snd (onFinished sys SIGTERM
          (startRecording sys perfOptions outputPath recordAsSudo
             recordOptions workingDir (stopRecording st)))))
        = emitted (trace (snd (startRecording sys perfOptions outputPath recordAsSudo
             recordOptions workingDir (stopRecording st))))
          @ [if fst (ensureFileReadable sys outputPath
                  (snd (startRecording sys perfOptions outputPath recordAsSudo
                     recordOptions workingDir (stopRecording st))))
             then recordingFinished outputPath
             else recordingFailed ''Unable to make data file readable.''])"
proof (intro conjI impI)
  show "m_userTerminated (fst (startRecording sys perfOptions outputPath recordAsSudo recordOptions workingDir st))
     = m_userTerminated (fst st)"
    by (rule startRecording_keeps_flag)
next
  assume h: "m_perfRecordProcess (fst st) \<noteq> None"
  then have s: "m_userTerminated (fst (stopRecording st))"
    by (auto simp: stopRecording_def)
  then show f: "m_userTerminated (fst (startRecording sys perfOptions outputPath recordAsSudo
           recordOptions workingDir (stopRecording st)))"
    by (simp add: startRecording_keeps_flag)
  then show "onErrorOccurred (startRecording sys perfOptions outputPath recordAsSudo
           recordOptions workingDir (stopRecording st))
          = Some (startRecording sys perfOptions outputPath recordAsSudo
           recordOptions workingDir (stopRecording st))"
    by (simp add: onErrorOccurred_def Let_def)
next
  let ?st2 = "startRecording sys perfOptions outputPath recordAsSudo
             recordOptions workingDir (stopRecording st)"
  assume a: "m_perfRecordProcess (fst st) \<noteq> None
        \<and> fileExists (QFileInfo (fs (snd st)) (dirPath sys outputPath))
        \<and> isDir (QFileInfo (fs (snd st)) (dirPath sys outputPath))
        \<and> isWritable (QFileInfo (fs (snd st)) (dirPath sys outputPath))
        \<and> fileExists (QFileInfo (fs (snd st)) outputPath)"
  then have flag: "m_userTerminated (fst ?st2)"
    by (auto simp: startRecording_keeps_flag stopRecording_def)
  from a have path: "m_outputPath (fst ?st2) = outputPath"
    by (intro startRecording_outputPath) (simp_all add: stopRecording_fs)
  have fsys: "fs (snd ?st2) = fs (snd st)"
    by (simp add: startRecording_fs stopRecording_fs)
  from a flag path fsys
  show "emitted (trace (snd (onFinished sys SIGTERM ?st2)))
        = emitted (trace (snd ?st2))
          @ [if fst (ensureFileReadable sys outputPath (snd ?st2))
             then recordingFinished outputPath
             else recordingFailed ''Unable to make data file readable.'']"
    by (simp add: onFinished_def Let_def)
qed


theorem flag_survives_start_witness:
  "m_perfRecordProcess (fst demo_running) \<noteq> None
   \<and> fileExists (QFileInfo (fs (snd demo_running)) (dirPath demo_os ''/tmp/perf.data''))
   \<and> isDir (QFileInfo (fs (snd demo_running)) (dirPath demo_os ''/tmp/perf.data''))
   \<and> isWritable (QFileInfo (fs (snd demo_running)) (dirPath demo_os ''/tmp/perf.data''))
   \<and> fileExists (QFileInfo (fs (snd demo_running)) ''/tmp/perf.data'')
   \<and> fileSize (QFileInfo (fs (snd demo_running)) ''/tmp/perf.data'') = 0
   \<and> m_userTerminated (fst (startRecording demo_os [] ''/tmp/perf.data'' False
         [''--pid'', ''2''] [] (stopRecording demo_running)))
   \<and> onErrorOccurred (startRecording demo_os [] ''/tmp/perf.data'' False
         [''--pid'', ''2''] [] (stopRecording demo_running))
       = Some (startRecording demo_os [] ''/tmp/perf.data'' False
         [''--pid'', ''2''] [] (stopRecording demo_running))
   \<and> emitted (trace (snd (onFinished demo_os SIGTERM
         (startRecording demo_os [] ''/tmp/perf.data'' False
            [''--pid'', ''2''] [] (stopRecording demo_running)))))
       = emitted (trace (snd (startRecording demo_os [] ''/tmp/perf.data'' False
            [''--pid'', ''2''] [] (stopRecording demo_running))))
         @ [recordingFinished ''/tmp/perf.data'']"
proof -
  have a: "m_perfRecordProcess (fst demo_running) \<noteq> None"
    and b: "fileExists (QFileInfo (fs (snd demo_running)) (dirPath demo_os ''/tmp/perf.data''))"
    and c: "isDir (QFileInfo (fs (snd demo_running)) (dirPath demo_os ''/tmp/perf.data''))"
    and d: "isWritable (QFileInfo (fs (snd demo_running)) (dirPath demo_os ''/tmp/perf.data''))"
    and e: "fileExists (QFileInfo (fs (snd demo_running)) ''/tmp/perf.data'')"
    and z: "fileSize (QFileInfo (fs (snd demo_running)) ''/tmp/perf.data'') = 0"
    by (simp_all add: demo_running_eq demo_os_def demo_fs_def demo_dir_def demo_data_def
          QFileInfo_defs)
  have fsys: "fs (snd (startRecording demo_os [] ''/tmp/perf.data'' False
            [''--pid'', ''2''] [] (stopRecording demo_running))) = demo_fs"
    by (simp add: startRecording_fs stopRecording_fs demo_running_eq)
  have r: "fst (ensureFileReadable demo_os ''/tmp/perf.data''
             (snd (startRecording demo_os [] ''/tmp/perf.data'' False
                [''--pid'', ''2''] [] (stopRecording demo_running))))"
    by (simp add: ensureFileReadable_def Let_def fsys sudoUtil_demo currentUsername_def)
       (simp add: demo_os_def demo_chown_def demo_fs_def demo_data_def QFileInfo_defs)
  from flag_survives_start
         [of demo_os "[]" "''/tmp/perf.data''" False "[''--pid'', ''2'']" "[]" demo_running]
       a b c d e r
  have 1: "m_userTerminated (fst (startRecording demo_os [] ''/tmp/perf.data'' False
         [''--pid'', ''2''] [] (stopRecording demo_running)))"
    and 2: "onErrorOccurred (startRecording demo_os [] ''/tmp/perf.data'' False
         [''--pid'', ''2''] [] (stopRecording demo_running))
       = Some (startRecording demo_os [] ''/tmp/perf.data'' False
         [''--pid'', ''2''] [] (stopRecording demo_running))"
    and 3: "emitted (trace (snd (onFinished demo_os SIGTERM
         (startRecording demo_os [] ''/tmp/perf.data'' False
            [''--pid'', ''2''] [] (stopRecording demo_running)))))
       = emitted (trace (snd (startRecording demo_os [] ''/tmp/perf.data'' False
            [''--pid'', ''2''] [] (stopRecording demo_running))))
         @ [recordingFinished ''/tmp/perf.data'']"
    by simp_all
  from a b c d e z 1 2 3 show ?thesis by (intro conjI)
qed

end
